theory Spec2Isabelle
  imports Main "HOL-Library.Word"
begin

unbundle bit_operations_syntax

section \<open>Exceptions and failure kinds\<close>

text \<open>
  The exception classes that \<^verbatim>\<open>computation_building_blocks.py\<close> raises are
  \<^verbatim>\<open>TypeError\<close> and \<^verbatim>\<open>ValueError\<close>; an \<^verbatim>\<open>assert\<close> raises
  \<^verbatim>\<open>AssertionError\<close>. \<open>TypeCapabilityError\<close> stands for a failure raised inside the type
  capability (a lookup of a field that the named-tuple type does not have).
\<close>

datatype error = TypeError | ValueError | AssertionError | TypeCapabilityError

text \<open>
  The taxonomy of the specification, in its own words: \<open>InvalidArgumentKind\<close> is the
  "TypeError" class of failure, \<open>InvalidValueKind\<close> the "ValueError" class of failure,
  \<open>IncompatibleTypeKind\<close> a failure of the compatibility rule reported by the type capability.
  An assertion failure and a successful construction have no kind.
\<close>

datatype failure_kind = InvalidArgumentKind | InvalidValueKind | IncompatibleTypeKind

fun fails_with :: "error + 'a \<Rightarrow> failure_kind \<Rightarrow> bool" where
  "fails_with (Inl TypeError) k = (k = InvalidArgumentKind)"
| "fails_with (Inl ValueError) k = (k = InvalidValueKind)"
| "fails_with (Inl TypeCapabilityError) k = (k = IncompatibleTypeKind)"
| "fails_with (Inl AssertionError) k = False"
| "fails_with (Inr v) k = False"

section \<open>The type capability\<close>

text \<open>
  Modelled from the spec: the \<^verbatim>\<open>types\<close> module is defined outside this module. A type
  signature is a structural value: a function type, a named-tuple type, or some other type.
  A slot that holds a type in Python may hold \<^verbatim>\<open>None\<close> (the source tests
  \<^verbatim>\<open>func.type_signature.parameter is not None\<close>), so every slot is a \<open>ty option\<close>.
  A named-tuple type is an ordered sequence of (optional name, type) fields; the source reads
  the type of a field as \<^verbatim>\<open>elements[index][1]\<close>.
\<close>

datatype ty =
    OtherType string
  | FunctionType "ty option" "ty option"
  | NamedTupleType "(string option \<times> ty option) list"

text \<open>
  Modelled from the spec: \<^verbatim>\<open>types.to_type\<close>, defined outside this module, normalises a
  type spec to a type value. The type specs of this development are type values already, which
  the conversion takes as given, or \<^verbatim>\<open>None\<close>, which is no type and stays
  \<^verbatim>\<open>None\<close>: the constructors that require a type (\<^verbatim>\<open>Lambda\<close>, \<^verbatim>\<open>Intrinsic\<close>,
  \<^verbatim>\<open>Data\<close>) test for \<^verbatim>\<open>None\<close> themselves before they convert.
\<close>

definition to_type :: "ty option \<Rightarrow> ty option" where
  "to_type spec = spec"

text \<open>
  Modelled from the spec: \<^verbatim>\<open>type_utils.get_named_tuple_element_type\<close>, defined outside
  this module, is the field lookup on a named-tuple type; it fails, in the type capability, if
  the field does not exist.
\<close>

definition get_named_tuple_element_type :: "ty \<Rightarrow> string \<Rightarrow> error + ty option" where
  "get_named_tuple_element_type type_spec name =
     (case type_spec of
        NamedTupleType elements \<Rightarrow>
          (case find (\<lambda>e. fst e = Some name) elements of
             Some e \<Rightarrow> Inr (snd e)
           | None \<Rightarrow> Inl TypeCapabilityError)
      | _ \<Rightarrow> Inl TypeError)"

section \<open>Nodes\<close>

text \<open>
  The context of a reference is any Python object; the module only converts it to text and
  tests its truth value.
\<close>

datatype ref_context = Context string bool

fun context_str :: "ref_context \<Rightarrow> string" where
  "context_str (Context s b) = s"

fun context_bool :: "ref_context \<Rightarrow> bool" where
  "context_bool (Context s b) = b"

text \<open>
  Modelled from the spec: \<^verbatim>\<open>pb.Computation\<close> is generated from a protocol description
  outside this module. It is an opaque payload; the module reads its embedded type descriptor
  (\<^verbatim>\<open>proto.type\<close>, here the serialized descriptor) and the text \<^verbatim>\<open>repr\<close> yields.
\<close>

datatype computation = Computation string string

fun proto_type :: "computation \<Rightarrow> string" where
  "proto_type (Computation t r) = t"

fun proto_repr :: "computation \<Rightarrow> string" where
  "proto_repr (Computation t r) = r"

text \<open>
  The nine classes derived from \<^verbatim>\<open>ComputationBuildingBlock\<close>. The first field of every
  variant is \<^verbatim>\<open>_type_signature\<close>, set by the base class; the others are the private
  attributes that the constructor of the class sets, in the order of the source.
\<close>

datatype node =
    Reference "ty option" string "ref_context option"
  | Selection "ty option" node "string option" "int option"
  | Tuple "ty option" "(string option \<times> node) list"
  | Call "ty option" node "node option"
  | Lambda "ty option" string "ty option" node
  | Block "ty option" "(string \<times> node) list" node
  | Intrinsic "ty option" string
  | Data "ty option" string
  | CompiledComputation "ty option" computation string

fun type_signature :: "node \<Rightarrow> ty option" where
  "type_signature (Reference t n c) = t"
| "type_signature (Selection t s n i) = t"
| "type_signature (Tuple t es) = t"
| "type_signature (Call t f a) = t"
| "type_signature (Lambda t pn pt r) = t"
| "type_signature (Block t ls r) = t"
| "type_signature (Intrinsic t u) = t"
| "type_signature (Data t u) = t"
| "type_signature (CompiledComputation t p n) = t"

text \<open>\<^verbatim>\<open>ComputationBuildingBlock.__init__\<close>: the type signature is the converted type spec.\<close>

definition ComputationBuildingBlock_init :: "ty option \<Rightarrow> ty option" where
  "ComputationBuildingBlock_init type_spec = to_type type_spec"

section \<open>Python arguments\<close>

text \<open>
  An argument that a constructor checks at run time (\<^verbatim>\<open>py_typecheck.check_type\<close>,
  \<^verbatim>\<open>isinstance\<close>, \<^verbatim>\<open>is None\<close>) is a Python object of any class: \<open>PyOther\<close> is
  an object of a class the module does not know.
\<close>

datatype pyobj =
    PyNone
  | PyStr string
  | PyInt int
  | PyTuple "pyobj list"
  | PyNode node
  | PyProto computation
  | PyOther

section \<open>Constructors\<close>

subsection \<open>Reference\<close>

text \<open>
  \<^verbatim>\<open>Reference.__init__(name, type_spec, context=None)\<close>: the name is checked to be a string;
  the type spec goes to the base class as it is.
\<close>

definition Reference_init :: "pyobj \<Rightarrow> ty option \<Rightarrow> ref_context option \<Rightarrow> error + node" where
  "Reference_init name type_spec context =
     (case name of
        PyStr n \<Rightarrow> Inr (Reference (ComputationBuildingBlock_init type_spec) n context)
      | _ \<Rightarrow> Inl TypeError)"

subsection \<open>Selection\<close>

text \<open>
  \<^verbatim>\<open>Selection.__init__(source, name=None, index=None)\<close>. The checks are in the order of
  the source: neither or both of name and index, the class of the source, the class of its
  type, then the branch of the name or the branch of the index. The normalisation
  \<^verbatim>\<open>str(name)\<close> of a string is the string.
\<close>

definition Selection_init :: "pyobj \<Rightarrow> pyobj \<Rightarrow> pyobj \<Rightarrow> error + node" where
  "Selection_init source name index =
     (if name = PyNone \<and> index = PyNone then Inl ValueError
      else if name \<noteq> PyNone \<and> index \<noteq> PyNone then Inl ValueError
      else
        (case source of
           PyNode src \<Rightarrow>
             (case type_signature src of
                Some (NamedTupleType elements) \<Rightarrow>
                  (if name \<noteq> PyNone then
                     (case name of
                        PyStr n \<Rightarrow>
                          (if n = [] then Inl ValueError
                           else
                             (case get_named_tuple_element_type (NamedTupleType elements) n of
                                Inl e \<Rightarrow> Inl e
                              | Inr t \<Rightarrow>
                                  Inr (Selection (ComputationBuildingBlock_init t) src (Some n) None)))
                      | _ \<Rightarrow> Inl TypeError)
                   else
                     (case index of
                        PyInt i \<Rightarrow>
                          (if 0 \<le> i \<and> i < int (length elements) then
                             Inr (Selection (ComputationBuildingBlock_init (snd (elements ! nat i)))
                                    src None (Some i))
                           else Inl ValueError)
                      | _ \<Rightarrow> Inl TypeError))
              | _ \<Rightarrow> Inl TypeError)
         | _ \<Rightarrow> Inl TypeError))"

subsection \<open>Tuple\<close>

text \<open>
  The local function \<^verbatim>\<open>_map_element\<close>: a bare node is an unnamed element; a 2-tuple whose
  first component is \<^verbatim>\<open>None\<close> or a string must hold a node; anything else is refused.
\<close>

definition map_element :: "pyobj \<Rightarrow> error + (string option \<times> node)" where
  "map_element e =
     (case e of
        PyNode v \<Rightarrow> Inr (None, v)
      | PyTuple [PyNone, v] \<Rightarrow> (case v of PyNode w \<Rightarrow> Inr (None, w) | _ \<Rightarrow> Inl TypeError)
      | PyTuple [PyStr s, v] \<Rightarrow> (case v of PyNode w \<Rightarrow> Inr (Some s, w) | _ \<Rightarrow> Inl TypeError)
      | _ \<Rightarrow> Inl TypeError)"

text \<open>The list comprehension over \<^verbatim>\<open>_map_element\<close>: the first refusal ends it.\<close>

fun map_elements :: "pyobj list \<Rightarrow> error + (string option \<times> node) list" where
  "map_elements [] = Inr []"
| "map_elements (e # es) =
     (case map_element e of
        Inl err \<Rightarrow> Inl err
      | Inr x \<Rightarrow> (case map_elements es of Inl err \<Rightarrow> Inl err | Inr xs \<Rightarrow> Inr (x # xs)))"

text \<open>
  Modelled from the spec: \<^verbatim>\<open>anonymous_tuple.AnonymousTuple.__init__\<close> is defined outside
  this module. The container holds the (optional name, value) pairs in order; its
  construction fails with a \<^verbatim>\<open>ValueError\<close> if two entries share a non-null name.
\<close>

definition element_names :: "(string option \<times> 'a) list \<Rightarrow> string list" where
  "element_names elements = [n. (Some n, v) \<leftarrow> elements]"

definition AnonymousTuple_init :: "(string option \<times> 'a) list \<Rightarrow> error + (string option \<times> 'a) list" where
  "AnonymousTuple_init elements =
     (if distinct (element_names elements) then Inr elements else Inl ValueError)"

text \<open>
  The field that the type gets for one element: the pair of name and type if the name is
  true in Python (a non-empty string), the bare type otherwise, which the named-tuple type
  holds as an unnamed field.
\<close>

definition element_type :: "string option \<times> node \<Rightarrow> string option \<times> ty option" where
  "element_type e =
     (if fst e \<noteq> None \<and> fst e \<noteq> Some [] then (fst e, type_signature (snd e))
      else (None, type_signature (snd e)))"

text \<open>
  \<^verbatim>\<open>Tuple.__init__(elements)\<close>: the elements are mapped, the base class gets the
  named-tuple type of the children's types, then the container is built over the elements.
  The named-tuple type has the shape of the same container; the names that its fields share
  are shared by the elements, so the failure of the container stands for both.
\<close>

definition Tuple_init :: "pyobj list \<Rightarrow> error + node" where
  "Tuple_init elems =
     (case map_elements elems of
        Inl err \<Rightarrow> Inl err
      | Inr elements \<Rightarrow>
          (case AnonymousTuple_init elements of
             Inl err \<Rightarrow> Inl err
           | Inr named \<Rightarrow>
               Inr (Tuple
                      (ComputationBuildingBlock_init
                         (Some (NamedTupleType (map element_type elements))))
                      named)))"

subsection \<open>Call\<close>

text \<open>
  \<^verbatim>\<open>Call.__init__(func, arg=None)\<close>. The assignability check belongs to the type
  capability and is a parameter: \<open>is_assignable_from p t\<close> is
  \<^verbatim>\<open>p.is_assignable_from(t)\<close>. The argument is not checked by the constructor; it is a
  node or \<^verbatim>\<open>None\<close>.
\<close>

definition Call_init :: "(ty \<Rightarrow> ty option \<Rightarrow> bool) \<Rightarrow> pyobj \<Rightarrow> node option \<Rightarrow> error + node" where
  "Call_init is_assignable_from func arg =
     (case func of
        PyNode f \<Rightarrow>
          (case type_signature f of
             Some (FunctionType parameter result) \<Rightarrow>
               (case parameter of
                  Some p \<Rightarrow>
                    (case arg of
                       None \<Rightarrow> Inl TypeError
                     | Some a \<Rightarrow>
                         (if \<not> is_assignable_from p (type_signature a) then Inl TypeError
                          else if (arg \<noteq> None) = (parameter \<noteq> None) then
                            Inr (Call (ComputationBuildingBlock_init result) f arg)
                          else Inl AssertionError))
                | None \<Rightarrow>
                    (if arg \<noteq> None then Inl TypeError
                     else if (arg \<noteq> None) = (parameter \<noteq> None) then
                       Inr (Call (ComputationBuildingBlock_init result) f arg)
                     else Inl AssertionError))
           | _ \<Rightarrow> Inl TypeError)
      | _ \<Rightarrow> Inl TypeError)"

subsection \<open>Lambda\<close>

text \<open>
  \<^verbatim>\<open>Lambda.__init__(parameter_name, parameter_type, result)\<close>. The assertion after the
  conversion says that the converted parameter type is a type.
\<close>

definition Lambda_init :: "pyobj \<Rightarrow> ty option \<Rightarrow> pyobj \<Rightarrow> error + node" where
  "Lambda_init parameter_name parameter_type result =
     (case parameter_name of
        PyStr pn \<Rightarrow>
          (if parameter_type = None then Inl TypeError
           else
             (case to_type parameter_type of
                None \<Rightarrow> Inl AssertionError
              | Some pt \<Rightarrow>
                  (case result of
                     PyNode r \<Rightarrow>
                       Inr (Lambda
                              (ComputationBuildingBlock_init
                                 (Some (FunctionType (Some pt) (type_signature r))))
                              pn (Some pt) r)
                   | _ \<Rightarrow> Inl TypeError)))
      | _ \<Rightarrow> Inl TypeError)"

subsection \<open>Block\<close>

text \<open>
  The loop over \<^verbatim>\<open>local_symbols\<close>: every element must be a 2-tuple whose first component
  is a string and whose second component is a node; the accepted pairs are appended to
  \<^verbatim>\<open>updated_locals\<close>.
\<close>

fun block_locals :: "(string \<times> node) list \<Rightarrow> pyobj list \<Rightarrow> error + (string \<times> node) list" where
  "block_locals updated_locals [] = Inr updated_locals"
| "block_locals updated_locals (element # rest) =
     (case element of
        PyTuple [PyStr name, v] \<Rightarrow>
          (case v of
             PyNode w \<Rightarrow> block_locals (updated_locals @ [(name, w)]) rest
           | _ \<Rightarrow> Inl TypeError)
      | _ \<Rightarrow> Inl TypeError)"

definition Block_init :: "pyobj list \<Rightarrow> pyobj \<Rightarrow> error + node" where
  "Block_init local_symbols result =
     (case block_locals [] local_symbols of
        Inl err \<Rightarrow> Inl err
      | Inr updated_locals \<Rightarrow>
          (case result of
             PyNode r \<Rightarrow> Inr (Block (ComputationBuildingBlock_init (type_signature r)) updated_locals r)
           | _ \<Rightarrow> Inl TypeError))"

subsection \<open>Intrinsic and Data\<close>

definition Intrinsic_init :: "pyobj \<Rightarrow> ty option \<Rightarrow> error + node" where
  "Intrinsic_init uri type_spec =
     (case uri of
        PyStr u \<Rightarrow>
          (if type_spec = None then Inl TypeError
           else Inr (Intrinsic (ComputationBuildingBlock_init (to_type type_spec)) u))
      | _ \<Rightarrow> Inl TypeError)"

definition Data_init :: "pyobj \<Rightarrow> ty option \<Rightarrow> error + node" where
  "Data_init uri type_spec =
     (case uri of
        PyStr u \<Rightarrow>
          (if type_spec = None then Inl TypeError
           else Inr (Data (ComputationBuildingBlock_init (to_type type_spec)) u))
      | _ \<Rightarrow> Inl TypeError)"

subsection \<open>CompiledComputation\<close>

text \<open>
  \<^verbatim>\<open>zlib.adler32\<close>: the Adler-32 checksum of a byte string. The two sums start at 1 and 0
  and are kept modulo 65521; the checksum is the second sum in the upper 16 bits and the first
  in the lower 16 bits, which Python 2 returns as a signed 32-bit integer.
\<close>

fun adler32_sums :: "nat \<Rightarrow> nat \<Rightarrow> string \<Rightarrow> nat \<times> nat" where
  "adler32_sums a b [] = (a, b)"
| "adler32_sums a b (c # cs) =
     adler32_sums ((a + of_char c) mod 65521) ((b + (a + of_char c) mod 65521) mod 65521) cs"

definition adler32 :: "string \<Rightarrow> int" where
  "adler32 bytes =
     (case adler32_sums 1 0 bytes of (a, b) \<Rightarrow> sint (word_of_nat (b * 65536 + a) :: 32 word))"

text \<open>
  The format \<^verbatim>\<open>'{:x}'\<close> of a non-negative integer: its digits to the base 16, in lower
  case, without a prefix and without leading zeros.
\<close>

definition hex_digit :: "nat \<Rightarrow> char" where
  "hex_digit d = ''0123456789abcdef'' ! (d mod 16)"

function format_x :: "nat \<Rightarrow> string" where
  "format_x n = (if n < 16 then [hex_digit n] else format_x (n div 16) @ [hex_digit (n mod 16)])"
  by pat_completeness auto
termination
  by (relation "measure (\<lambda>n. n)") auto

declare format_x.simps [simp del]

text \<open>The name that a compiled computation gets when none is given.\<close>

definition default_name :: "computation \<Rightarrow> string" where
  "default_name proto = format_x (nat (adler32 (proto_repr proto) AND 0xFFFFFFFF))"

text \<open>
  \<^verbatim>\<open>CompiledComputation.__init__(proto, name=None)\<close>. The deserialization of the type
  descriptor belongs to the type capability and is a parameter; it may fail.
\<close>

definition CompiledComputation_init ::
  "(string \<Rightarrow> error + ty option) \<Rightarrow> pyobj \<Rightarrow> pyobj \<Rightarrow> error + node" where
  "CompiledComputation_init deserialize_type proto name =
     (case proto of
        PyProto p \<Rightarrow>
          (if name \<noteq> PyNone \<and> (case name of PyStr n \<Rightarrow> False | _ \<Rightarrow> True) then Inl TypeError
           else
             (case deserialize_type (proto_type p) of
                Inl err \<Rightarrow> Inl err
              | Inr t \<Rightarrow>
                  Inr (CompiledComputation (ComputationBuildingBlock_init t) p
                         (case name of PyStr n \<Rightarrow> n | _ \<Rightarrow> default_name p))))
      | _ \<Rightarrow> Inl TypeError)"

section \<open>Accessors\<close>

text \<open>The read-only properties \<^verbatim>\<open>name\<close> and \<^verbatim>\<open>index\<close> of a selection.\<close>

fun selection_name :: "node \<Rightarrow> string option" where
  "selection_name (Selection t s n i) = n"
| "selection_name _ = None"

fun selection_index :: "node \<Rightarrow> int option" where
  "selection_index (Selection t s n i) = i"
| "selection_index _ = None"

section \<open>Rendering\<close>

text \<open>\<^verbatim>\<open>sep.join(xs)\<close> of Python.\<close>

fun join :: "string \<Rightarrow> string list \<Rightarrow> string" where
  "join sep [] = []"
| "join sep [x] = x"
| "join sep (x # y # ys) = x @ sep @ join sep (y # ys)"

text \<open>The format \<^verbatim>\<open>'{}'\<close> of an integer: its decimal digits, after a minus sign if negative.\<close>

definition dec_digit :: "nat \<Rightarrow> char" where
  "dec_digit d = ''0123456789'' ! (d mod 10)"

function format_nat :: "nat \<Rightarrow> string" where
  "format_nat n = (if n < 10 then [dec_digit n] else format_nat (n div 10) @ [dec_digit (n mod 10)])"
  by pat_completeness auto
termination
  by (relation "measure (\<lambda>n. n)") auto

declare format_nat.simps [simp del]

definition format_int :: "int \<Rightarrow> string" where
  "format_int i = (if i < 0 then CHR ''-'' # format_nat (nat (- i)) else format_nat (nat i))"

text \<open>
  Modelled from the spec: \<^verbatim>\<open>anonymous_tuple.AnonymousTuple.__str__\<close> is defined outside
  this module. The canonical form of the container is \<^verbatim>\<open><name=val, val, ...>\<close>, with
  unnamed elements rendered bare. The argument holds the rendered values.
\<close>

definition AnonymousTuple_str :: "(string option \<times> string) list \<Rightarrow> string" where
  "AnonymousTuple_str elements =
     ''<'' @ join '', ''
       (map (\<lambda>e. case fst e of Some n \<Rightarrow> n @ ''='' @ snd e | None \<Rightarrow> snd e) elements) @ ''>''"

text \<open>\<^verbatim>\<open>__str__\<close> of the nine classes.\<close>

primrec node_str :: "node \<Rightarrow> string" where
  "node_str (Reference t name context) =
     (case context of
        Some c \<Rightarrow> (if context_bool c then name @ ''@'' @ context_str c else name)
      | None \<Rightarrow> name)"
| "node_str (Selection t source name index) =
     (case name of
        Some n \<Rightarrow> node_str source @ ''.'' @ n
      | None \<Rightarrow>
          node_str source @ ''['' @
            (case index of Some i \<Rightarrow> format_int i | None \<Rightarrow> ''None'') @ '']'')"
| "node_str (Tuple t elements) = AnonymousTuple_str (map (map_prod id node_str) elements)"
| "node_str (Call t function argument) =
     (case map_option node_str argument of
        Some a \<Rightarrow> node_str function @ ''('' @ a @ '')''
      | None \<Rightarrow> node_str function @ ''()'')"
| "node_str (Lambda t parameter_name parameter_type result) =
     ''('' @ parameter_name @ '' -> '' @ node_str result @ '')''"
| "node_str (Block t locals result) =
     ''(let '' @ join '','' (map (\<lambda>kv. fst kv @ ''='' @ snd kv) (map (map_prod id node_str) locals)) @
       '' in '' @ node_str result @ '')''"
| "node_str (Intrinsic t uri) = uri"
| "node_str (Data t uri) = uri"
| "node_str (CompiledComputation t proto name) = ''comp('' @ name @ '')''"

section \<open>Arguments of the expected shape\<close>

text \<open>
  An element that \<^verbatim>\<open>Tuple.__init__\<close> accepts is a bare node or a pair of a name, which may
  be \<^verbatim>\<open>None\<close>, and a node. \<open>element_obj\<close> is the Python object, \<open>element_pair\<close> the
  pair of name and node that the element stands for.
\<close>

datatype tuple_element = Bare node | Pair "string option" node

fun element_obj :: "tuple_element \<Rightarrow> pyobj" where
  "element_obj (Bare v) = PyNode v"
| "element_obj (Pair None v) = PyTuple [PyNone, PyNode v]"
| "element_obj (Pair (Some s) v) = PyTuple [PyStr s, PyNode v]"

fun element_pair :: "tuple_element \<Rightarrow> string option \<times> node" where
  "element_pair (Bare v) = (None, v)"
| "element_pair (Pair n v) = (n, v)"

text \<open>A local that \<^verbatim>\<open>Block.__init__\<close> accepts: the 2-tuple of a string and a node.\<close>

definition local_obj :: "string \<times> node \<Rightarrow> pyobj" where
  "local_obj l = PyTuple [PyStr (fst l), PyNode (snd l)]"

text \<open>The private attribute \<^verbatim>\<open>_name\<close> of a compiled computation, which its rendering shows.\<close>

fun compiled_name :: "node \<Rightarrow> string" where
  "compiled_name (CompiledComputation t p n) = n"
| "compiled_name _ = []"

text \<open>The private attribute \<^verbatim>\<open>_name\<close> of a reference (the property \<^verbatim>\<open>name\<close>).\<close>

fun reference_name :: "node \<Rightarrow> string" where
  "reference_name (Reference t n c) = n"
| "reference_name _ = []"

section \<open>Properties\<close>

lemma ComputationBuildingBlock_init_id: "ComputationBuildingBlock_init t = t"
  by (simp add: ComputationBuildingBlock_init_def to_type_def)

subsection \<open>Selection: one of name and index\<close>

text \<open>
  C9. A selection constructed with neither a name nor an index, or with both, fails with a
  \<^verbatim>\<open>ValueError\<close> (\<open>InvalidValueKind\<close>), whatever the source is. A selection that is
  constructed keeps exactly one of the two: either the name that was given, and its index is
  \<^verbatim>\<open>None\<close>, or the index that was given, and its name is \<^verbatim>\<open>None\<close>.
\<close>

theorem Selection_init_name_xor_index:
  "fails_with (Selection_init source PyNone PyNone) InvalidValueKind \<and>
   (name \<noteq> PyNone \<and> index \<noteq> PyNone \<longrightarrow>
      fails_with (Selection_init source name index) InvalidValueKind) \<and>
   (\<forall>nd. Selection_init source name index = Inr nd \<longrightarrow>
      (\<exists>n. name = PyStr n \<and> index = PyNone \<and>
           selection_name nd = Some n \<and> selection_index nd = None) \<or>
      (\<exists>i. index = PyInt i \<and> name = PyNone \<and>
           selection_index nd = Some i \<and> selection_name nd = None))"
proof (intro conjI allI impI)
  show "fails_with (Selection_init source PyNone PyNone) InvalidValueKind"
    by (simp add: Selection_init_def)
next
  assume "name \<noteq> PyNone \<and> index \<noteq> PyNone"
  then show "fails_with (Selection_init source name index) InvalidValueKind"
    by (simp add: Selection_init_def)
next
  fix nd
  assume ok: "Selection_init source name index = Inr nd"
  show "(\<exists>n. name = PyStr n \<and> index = PyNone \<and>
           selection_name nd = Some n \<and> selection_index nd = None) \<or>
      (\<exists>i. index = PyInt i \<and> name = PyNone \<and>
           selection_index nd = Some i \<and> selection_name nd = None)"
  proof (cases "name = PyNone")
    case True
    with ok show ?thesis
      by (auto simp: Selection_init_def
          split: if_splits pyobj.splits option.splits ty.splits sum.splits)
  next
    case False
    with ok show ?thesis
      by (auto simp: Selection_init_def
          split: if_splits pyobj.splits option.splits ty.splits sum.splits)
  qed
qed

theorem Selection_init_name_xor_index_witness:
  "fails_with
     (Selection_init
        (PyNode (Reference (Some (NamedTupleType [(Some ''x'', Some (OtherType ''int''))])) ''r'' None))
        (PyStr ''x'') (PyInt 0)) InvalidValueKind \<and>
   (\<exists>nd. Selection_init
        (PyNode (Reference (Some (NamedTupleType [(Some ''x'', Some (OtherType ''int''))])) ''r'' None))
        (PyStr ''x'') PyNone = Inr nd \<and>
      selection_name nd = Some ''x'' \<and> selection_index nd = None)"
  using
    Selection_init_name_xor_index
      [of "PyNode (Reference (Some (NamedTupleType [(Some ''x'', Some (OtherType ''int''))])) ''r'' None)"
          "PyStr ''x''" "PyInt 0"]
    Selection_init_name_xor_index
      [of "PyNode (Reference (Some (NamedTupleType [(Some ''x'', Some (OtherType ''int''))])) ''r'' None)"
          "PyStr ''x''" "PyNone"]
  by (simp add: Selection_init_def get_named_tuple_element_type_def
      ComputationBuildingBlock_init_id)

subsection \<open>Selection: the type of the selected element\<close>





subsection \<open>Tuple: the derived type\<close>

lemma map_element_obj: "map_element (element_obj e) = Inr (element_pair e)"
proof (cases e)
  case (Bare v)
  then show ?thesis by (simp add: map_element_def)
next
  case (Pair n v)
  then show ?thesis by (cases n) (simp_all add: map_element_def)
qed

lemma map_elements_obj: "map_elements (map element_obj es) = Inr (map element_pair es)"
  by (induction es) (simp_all add: map_element_obj)

text \<open>
  What \<^verbatim>\<open>Tuple.__init__\<close> computes for a sequence of elements, each a bare node or a pair of
  a name (or \<^verbatim>\<open>None\<close>) and a node. If two elements share a name that is not
  \<^verbatim>\<open>None\<close>, the construction fails with a \<^verbatim>\<open>ValueError\<close>. Otherwise the tuple holds
  the elements in their order with their names, and its type has one field per element, in
  the same order, with the type signature of the element's node; the field has the name of the
  element unless that name is the empty string, for which the truth test of the source leaves
  the field without a name.
\<close>

lemma Tuple_init_type:
  "Tuple_init (map element_obj es) =
     (if distinct (element_names (map element_pair es)) then
        Inr (Tuple
               (Some (NamedTupleType
                  (map (\<lambda>e. (if fst (element_pair e) = Some [] then None else fst (element_pair e),
                              type_signature (snd (element_pair e)))) es)))
               (map element_pair es))
      else Inl ValueError)"
  by (simp add: Tuple_init_def map_elements_obj AnonymousTuple_init_def
      ComputationBuildingBlock_init_id element_type_def comp_def)

lemma Tuple_init_type_examples:
  "Tuple_init
     [PyTuple [PyStr ''x'', PyNode (Reference (Some (OtherType ''int'')) ''r'' None)],
      PyNode (Data (Some (OtherType ''bool'')) ''d'')] =
     Inr (Tuple
            (Some (NamedTupleType [(Some ''x'', Some (OtherType ''int'')), (None, Some (OtherType ''bool''))]))
            [(Some ''x'', Reference (Some (OtherType ''int'')) ''r'' None),
             (None, Data (Some (OtherType ''bool'')) ''d'')]) \<and>
   Tuple_init
     [PyTuple [PyStr ''x'', PyNode (Reference (Some (OtherType ''int'')) ''r'' None)],
      PyTuple [PyStr ''x'', PyNode (Data (Some (OtherType ''bool'')) ''d'')]] = Inl ValueError"
  using
    Tuple_init_type
      [of "[Pair (Some ''x'') (Reference (Some (OtherType ''int'')) ''r'' None),
            Bare (Data (Some (OtherType ''bool'')) ''d'')]"]
    Tuple_init_type
      [of "[Pair (Some ''x'') (Reference (Some (OtherType ''int'')) ''r'' None),
            Pair (Some ''x'') (Data (Some (OtherType ''bool'')) ''d'')]"]
  by (simp add: element_names_def)

text \<open>
  C3. The fields of the type of a tuple are to have the names of the elements. The constructor
  admits the empty string as a name (\<^verbatim>\<open>e[0] is None or isinstance(e[0], string_types)\<close>)
  and the container keeps it, but the type is built under the truth test \<^verbatim>\<open>if e[0]\<close>: the
  tuple of the one element \<^verbatim>\<open>('', r)\<close> is constructed, its element has the name
  \<^verbatim>\<open>''\<close>, and the field of its type has no name.
\<close>

theorem Tuple_init_empty_name:
  "Tuple_init [PyTuple [PyStr [], PyNode (Reference (Some (OtherType ''int'')) ''r'' None)]] =
     Inr (Tuple (Some (NamedTupleType [(None, Some (OtherType ''int''))]))
            [(Some [], Reference (Some (OtherType ''int'')) ''r'' None)]) \<and>
   map fst [(None :: string option, Some (OtherType ''int''))] \<noteq>
     map fst [(Some [], Reference (Some (OtherType ''int'')) ''r'' None)]"
  by (simp add: Tuple_init_def map_element_def AnonymousTuple_init_def element_names_def
      ComputationBuildingBlock_init_id element_type_def)

subsection \<open>Call: the argument and the parameter\<close>

text \<open>
  C1, as the code has it. Let the function be a node whose type is the function type from
  \<open>P\<close> to \<open>R\<close>. If \<open>P\<close> is not \<^verbatim>\<open>None\<close> and the type of the argument is assignable to
  \<open>P\<close>, the call is constructed and its type signature is \<open>R\<close>. If \<open>P\<close> is not
  \<^verbatim>\<open>None\<close> and the type of the argument is not assignable to \<open>P\<close>, the construction fails
  with a \<^verbatim>\<open>TypeError\<close> (\<open>InvalidArgumentKind\<close>). If \<open>P\<close> is \<^verbatim>\<open>None\<close> and an argument
  is given, the construction fails with a \<^verbatim>\<open>TypeError\<close> (\<open>InvalidArgumentKind\<close>). If
  \<open>P\<close> is \<^verbatim>\<open>None\<close> and no argument is given, the call is constructed and its type signature
  is \<open>R\<close>. The assignability check is any predicate.
\<close>

theorem Call_init_cases:
  "type_signature f = Some (FunctionType P R) \<Longrightarrow>
   (\<forall>p a. P = Some p \<and> is_assignable_from p (type_signature a) \<longrightarrow>
      (\<exists>nd. Call_init is_assignable_from (PyNode f) (Some a) = Inr nd \<and> type_signature nd = R)) \<and>
   (\<forall>p a. P = Some p \<and> \<not> is_assignable_from p (type_signature a) \<longrightarrow>
      fails_with (Call_init is_assignable_from (PyNode f) (Some a)) InvalidArgumentKind) \<and>
   (\<forall>a. P = None \<longrightarrow>
      fails_with (Call_init is_assignable_from (PyNode f) (Some a)) InvalidArgumentKind) \<and>
   (P = None \<longrightarrow>
      (\<exists>nd. Call_init is_assignable_from (PyNode f) None = Inr nd \<and> type_signature nd = R))"
  by (simp add: Call_init_def ComputationBuildingBlock_init_id)

theorem Call_init_cases_witness:
  "(\<exists>nd. Call_init (\<lambda>p t. t = Some p)
        (PyNode (Reference (Some (FunctionType (Some (OtherType ''int'')) (Some (OtherType ''bool'')))) ''f'' None))
        (Some (Reference (Some (OtherType ''int'')) ''x'' None)) = Inr nd \<and>
      type_signature nd = Some (OtherType ''bool'')) \<and>
   fails_with
     (Call_init (\<lambda>p t. t = Some p)
        (PyNode (Reference (Some (FunctionType (Some (OtherType ''int'')) (Some (OtherType ''bool'')))) ''f'' None))
        (Some (Reference (Some (OtherType ''bool'')) ''y'' None))) InvalidArgumentKind \<and>
   fails_with
     (Call_init (\<lambda>p t. t = Some p)
        (PyNode (Reference (Some (FunctionType None (Some (OtherType ''bool'')))) ''g'' None))
        (Some (Reference (Some (OtherType ''int'')) ''x'' None))) InvalidArgumentKind \<and>
   (\<exists>nd. Call_init (\<lambda>p t. t = Some p)
        (PyNode (Reference (Some (FunctionType None (Some (OtherType ''bool'')))) ''g'' None))
        None = Inr nd \<and>
      type_signature nd = Some (OtherType ''bool''))"
  using
    Call_init_cases
      [of "Reference (Some (FunctionType (Some (OtherType ''int'')) (Some (OtherType ''bool'')))) ''f'' None"
          "Some (OtherType ''int'')" "Some (OtherType ''bool'')" "\<lambda>p t. t = Some p"]
    Call_init_cases
      [of "Reference (Some (FunctionType None (Some (OtherType ''bool'')))) ''g'' None"
          "None" "Some (OtherType ''bool'')" "\<lambda>p t. t = Some p"]
  by simp

text \<open>
  C1 as stated fails where the argument is not assignable: the function \<open>f\<close> has the type
  from \<open>int\<close> to \<open>bool\<close>, the argument has the type \<open>bool\<close>, assignability is equality of
  types, and the construction fails with a \<^verbatim>\<open>TypeError\<close>, which is not of the kind
  \<open>IncompatibleTypeKind\<close>.
\<close>

theorem Call_init_not_assignable_kind:
  "type_signature (Reference (Some (FunctionType (Some (OtherType ''int'')) (Some (OtherType ''bool'')))) ''f'' None) =
     Some (FunctionType (Some (OtherType ''int'')) (Some (OtherType ''bool''))) \<and>
   \<not> (\<lambda>p t. t = Some p) (OtherType ''int'')
        (type_signature (Reference (Some (OtherType ''bool'')) ''y'' None)) \<and>
   Call_init (\<lambda>p t. t = Some p)
     (PyNode (Reference (Some (FunctionType (Some (OtherType ''int'')) (Some (OtherType ''bool'')))) ''f'' None))
     (Some (Reference (Some (OtherType ''bool'')) ''y'' None)) = Inl TypeError \<and>
   \<not> fails_with
     (Call_init (\<lambda>p t. t = Some p)
        (PyNode (Reference (Some (FunctionType (Some (OtherType ''int'')) (Some (OtherType ''bool'')))) ''f'' None))
        (Some (Reference (Some (OtherType ''bool'')) ''y'' None))) IncompatibleTypeKind"
  by (simp add: Call_init_def)

subsection \<open>Lambda: the function type\<close>

text \<open>
  C5. For every string \<open>parameter_name\<close>, every parameter type \<open>T\<close> that is not
  \<^verbatim>\<open>None\<close> and every result node, the lambda is constructed and its type signature is the
  function type from \<open>T\<close> to the type signature of the result. With the parameter type
  \<^verbatim>\<open>None\<close> the construction fails with a \<^verbatim>\<open>TypeError\<close> (\<open>InvalidArgumentKind\<close>),
  whatever the other arguments are.
\<close>

theorem Lambda_init_type:
  "(\<exists>nd. Lambda_init (PyStr parameter_name) (Some T) (PyNode result) = Inr nd \<and>
      type_signature nd = Some (FunctionType (Some T) (type_signature result))) \<and>
   fails_with (Lambda_init name None body) InvalidArgumentKind"
  by (simp add: Lambda_init_def ComputationBuildingBlock_init_id to_type_def split: pyobj.splits)

subsection \<open>Block: the type of the result\<close>

lemma block_locals_obj: "block_locals acc (map local_obj ls) = Inr (acc @ ls)"
  by (induction ls arbitrary: acc) (simp_all add: local_obj_def)

text \<open>
  C6. For every sequence of locals, each the 2-tuple of a string and a node (the empty
  sequence too), and every result node, the block is constructed and its type signature is the
  type signature of the result, whatever the locals are; the block holds the locals in their
  order.
\<close>

theorem Block_init_type:
  "(\<exists>nd. Block_init (map local_obj locals) (PyNode result) = Inr nd \<and>
      type_signature nd = type_signature result) \<and>
   Block_init (map local_obj locals) (PyNode result) =
     Inr (Block (type_signature result) locals result)"
  by (simp add: Block_init_def block_locals_obj ComputationBuildingBlock_init_id)

subsection \<open>CompiledComputation: the name\<close>

lemma hex_digit_lower: "hex_digit d \<in> set ''0123456789abcdef''"
proof -
  have "d mod 16 < length ''0123456789abcdef''" by simp
  then have "''0123456789abcdef'' ! (d mod 16) \<in> set ''0123456789abcdef''"
    by (rule nth_mem)
  then show ?thesis by (simp only: hex_digit_def)
qed

lemma format_x_lower: "format_x n \<noteq> [] \<and> set (format_x n) \<subseteq> set ''0123456789abcdef''"
proof (induction n rule: format_x.induct)
  case (1 n)
  show ?case
  proof (cases "n < 16")
    case True
    then have "format_x n = [hex_digit n]" by (simp add: format_x.simps)
    with hex_digit_lower [of n] show ?thesis by simp
  next
    case False
    then have eq: "format_x n = format_x (n div 16) @ [hex_digit (n mod 16)]"
      by (subst format_x.simps) simp
    from False 1 have "set (format_x (n div 16)) \<subseteq> set ''0123456789abcdef''" by simp
    with hex_digit_lower [of "n mod 16"] eq show ?thesis by simp
  qed
qed

lemma CompiledComputation_init_PyNone:
  "CompiledComputation_init d (PyProto p) PyNone = Inr a \<Longrightarrow> compiled_name a = default_name p"
  by (auto simp: CompiledComputation_init_def split: sum.splits)

text \<open>
  C7. Two compiled computations constructed without a name from payloads with the same
  \<^verbatim>\<open>repr\<close> (as byte-identical payloads have) get the same name, whatever the
  deserialization of the type does: the name is \<open>default_name\<close> of the payload, the Adler-32
  checksum of its \<^verbatim>\<open>repr\<close>, masked to 32 bits, in hexadecimal. That name is not empty and
  all its characters are digits or the lower-case letters a to f. A name that is given is
  the name of the node. The construction succeeds whenever the type descriptor can be
  deserialized.
\<close>

theorem CompiledComputation_init_name:
  "(\<forall>a b. CompiledComputation_init d1 (PyProto p) PyNone = Inr a \<and>
          CompiledComputation_init d2 (PyProto q) PyNone = Inr b \<and>
          proto_repr p = proto_repr q \<longrightarrow>
          compiled_name a = compiled_name b \<and> compiled_name a = default_name p) \<and>
   (\<forall>a. CompiledComputation_init d1 (PyProto p) PyNone = Inr a \<longrightarrow>
        compiled_name a \<noteq> [] \<and> set (compiled_name a) \<subseteq> set ''0123456789abcdef'') \<and>
   (\<forall>a n. CompiledComputation_init d1 (PyProto p) (PyStr n) = Inr a \<longrightarrow> compiled_name a = n) \<and>
   (\<forall>t name. d1 (proto_type p) = Inr t \<and> (name = PyNone \<or> (\<exists>n. name = PyStr n)) \<longrightarrow>
        (\<exists>a. CompiledComputation_init d1 (PyProto p) name = Inr a))"
proof (intro conjI allI impI)
  fix a b
  assume h: "CompiledComputation_init d1 (PyProto p) PyNone = Inr a \<and>
          CompiledComputation_init d2 (PyProto q) PyNone = Inr b \<and>
          proto_repr p = proto_repr q"
  then have "compiled_name a = default_name p" and "compiled_name b = default_name q"
    by (auto dest: CompiledComputation_init_PyNone)
  moreover from h have "default_name p = default_name q" by (simp add: default_name_def)
  ultimately show "compiled_name a = compiled_name b" and "compiled_name a = default_name p"
    by simp_all
next
  fix a
  assume "CompiledComputation_init d1 (PyProto p) PyNone = Inr a"
  then have "compiled_name a = format_x (nat (adler32 (proto_repr p) AND 0xFFFFFFFF))"
    by (auto dest: CompiledComputation_init_PyNone simp: default_name_def)
  then show "compiled_name a \<noteq> []" and "set (compiled_name a) \<subseteq> set ''0123456789abcdef''"
    using format_x_lower [of "nat (adler32 (proto_repr p) AND 0xFFFFFFFF)"] by simp_all
next
  fix a n
  assume "CompiledComputation_init d1 (PyProto p) (PyStr n) = Inr a"
  then show "compiled_name a = n"
    by (auto simp: CompiledComputation_init_def split: sum.splits)
next
  fix t name
  assume "d1 (proto_type p) = Inr t \<and> (name = PyNone \<or> (\<exists>n. name = PyStr n))"
  then show "\<exists>a. CompiledComputation_init d1 (PyProto p) name = Inr a"
    by (auto simp: CompiledComputation_init_def)
qed

lemma default_name_Wikipedia: "default_name (Computation ''int'' ''Wikipedia'') = ''11e60398''"
proof -
  have "adler32 ''Wikipedia'' = 300286872" by (simp add: adler32_def)
  then have "default_name (Computation ''int'' ''Wikipedia'') = format_x 300286872"
    by (simp add: default_name_def)
  also have "format_x 300286872 = ''11e60398''"
    by (simp add: format_x.simps hex_digit_def)
  finally show ?thesis .
qed

theorem CompiledComputation_init_name_witness:
  "CompiledComputation_init (\<lambda>s. Inr (Some (OtherType s)))
     (PyProto (Computation ''int'' ''Wikipedia'')) PyNone =
     Inr (CompiledComputation (Some (OtherType ''int'')) (Computation ''int'' ''Wikipedia'') ''11e60398'') \<and>
   compiled_name
     (CompiledComputation (Some (OtherType ''int'')) (Computation ''int'' ''Wikipedia'') ''11e60398'') =
     default_name (Computation ''int'' ''Wikipedia'') \<and>
   set ''11e60398'' \<subseteq> set ''0123456789abcdef'' \<and>
   CompiledComputation_init (\<lambda>s. Inr (Some (OtherType s)))
     (PyProto (Computation ''int'' ''Wikipedia'')) (PyStr ''my_comp'') =
     Inr (CompiledComputation (Some (OtherType ''int'')) (Computation ''int'' ''Wikipedia'') ''my_comp'')"
proof -
  let ?d = "\<lambda>s. Inr (Some (OtherType s)) :: error + ty option"
  let ?p = "Computation ''int'' ''Wikipedia''"
  let ?a = "CompiledComputation (Some (OtherType ''int'')) ?p ''11e60398''"
  let ?b = "CompiledComputation (Some (OtherType ''int'')) ?p ''my_comp''"
  note name = CompiledComputation_init_name [of ?d ?p ?d ?p]
  have a: "CompiledComputation_init ?d (PyProto ?p) PyNone = Inr ?a"
    by (simp add: CompiledComputation_init_def ComputationBuildingBlock_init_id
        default_name_Wikipedia)
  have b: "CompiledComputation_init ?d (PyProto ?p) (PyStr ''my_comp'') = Inr ?b"
    by (simp add: CompiledComputation_init_def ComputationBuildingBlock_init_id)
  from name a have 1: "compiled_name ?a = default_name ?p" by blast
  from name a have "set (compiled_name ?a) \<subseteq> set ''0123456789abcdef''" by blast
  then have 2: "set ''11e60398'' \<subseteq> set ''0123456789abcdef''" by simp
  from a 1 2 b show ?thesis by blast
qed

subsection \<open>Call: the rendering\<close>

text \<open>
  C8. The string of a call with an argument is the string of the function, an opening
  parenthesis, the string of the argument and a closing parenthesis; the string of a call
  without an argument is the string of the function followed by \<^verbatim>\<open>()\<close>. This holds for
  every call node, and so for every call that the constructor returns.
\<close>

theorem Call_str:
  "node_str (Call t f (Some a)) = node_str f @ ''('' @ node_str a @ '')'' \<and>
   node_str (Call t f None) = node_str f @ ''()'' \<and>
   (\<forall>nd. Call_init is_assignable_from (PyNode f) arg = Inr nd \<longrightarrow>
      node_str nd =
        (case arg of
           Some x \<Rightarrow> node_str f @ ''('' @ node_str x @ '')''
         | None \<Rightarrow> node_str f @ ''()''))"
  by (auto simp: Call_init_def split: option.splits ty.splits if_splits)

theorem Call_str_witness:
  "node_str
     (Call (Some (OtherType ''bool''))
        (Reference (Some (FunctionType (Some (OtherType ''int'')) (Some (OtherType ''bool'')))) ''f'' None)
        (Some (Reference (Some (OtherType ''int'')) ''x'' None))) = ''f(x)'' \<and>
   Call_init (\<lambda>p t. t = Some p)
     (PyNode (Reference (Some (FunctionType (Some (OtherType ''int'')) (Some (OtherType ''bool'')))) ''f'' None))
     (Some (Reference (Some (OtherType ''int'')) ''x'' None)) =
     Inr (Call (Some (OtherType ''bool''))
            (Reference (Some (FunctionType (Some (OtherType ''int'')) (Some (OtherType ''bool'')))) ''f'' None)
            (Some (Reference (Some (OtherType ''int'')) ''x'' None)))"
  using
    Call_str
      [of "Some (OtherType ''bool'')"
          "Reference (Some (FunctionType (Some (OtherType ''int'')) (Some (OtherType ''bool'')))) ''f'' None"
          "Reference (Some (OtherType ''int'')) ''x'' None"
          "\<lambda>p t. t = Some p"
          "Some (Reference (Some (OtherType ''int'')) ''x'' None)"]
  by (simp add: Call_init_def ComputationBuildingBlock_init_id)

subsection \<open>Reference: the name\<close>

text \<open>
  C10, as the code has it. A reference is constructed from every string, the empty string
  too, and keeps it as its name; a name that is not a string fails with a \<^verbatim>\<open>TypeError\<close>
  (\<open>InvalidArgumentKind\<close>); so the name of every reference that is constructed is the string
  that was given.
\<close>

theorem Reference_init_name_text:
  "Reference_init (PyStr n) type_spec context = Inr (Reference type_spec n context) \<and>
   ((\<forall>s. name \<noteq> PyStr s) \<longrightarrow> fails_with (Reference_init name type_spec context) InvalidArgumentKind) \<and>
   (\<forall>nd. Reference_init name type_spec context = Inr nd \<longrightarrow> name = PyStr (reference_name nd))"
  by (auto simp: Reference_init_def ComputationBuildingBlock_init_id split: pyobj.splits)

theorem Reference_init_name_text_witness:
  "Reference_init (PyStr ''x'') (Some (OtherType ''int'')) None =
     Inr (Reference (Some (OtherType ''int'')) ''x'' None) \<and>
   fails_with (Reference_init (PyInt 3) (Some (OtherType ''int'')) None) InvalidArgumentKind \<and>
   PyStr ''x'' = PyStr (reference_name (Reference (Some (OtherType ''int'')) ''x'' None))"
  using
    Reference_init_name_text [of "''x''" "Some (OtherType ''int'')" None "PyInt 3"]
    Reference_init_name_text [of "''x''" "Some (OtherType ''int'')" None "PyStr ''x''"]
  by simp

text \<open>
  C10 as stated fails for the empty name: the reference with the name \<^verbatim>\<open>''\<close> is
  constructed, and its name is empty.
\<close>

theorem Reference_init_empty_name:
  "Reference_init (PyStr []) (Some (OtherType ''int'')) None =
     Inr (Reference (Some (OtherType ''int'')) [] None) \<and>
   reference_name (Reference (Some (OtherType ''int'')) [] None) = []"
  by (simp add: Reference_init_def ComputationBuildingBlock_init_id)

subsection \<open>Reference: the type signature\<close>

text \<open>
  C4. \<^verbatim>\<open>Intrinsic\<close>, \<^verbatim>\<open>Data\<close> and \<^verbatim>\<open>Lambda\<close> refuse a type spec that is
  \<^verbatim>\<open>None\<close> before they convert it; \<^verbatim>\<open>Reference\<close> hands its type spec to the base class
  unchecked. The reference \<^verbatim>\<open>Reference('x', None)\<close> is constructed, and its type signature
  is \<^verbatim>\<open>None\<close>.
\<close>

theorem Reference_init_null_type:
  "Reference_init (PyStr ''x'') None None = Inr (Reference None ''x'' None) \<and>
   type_signature (Reference None ''x'' None) = None \<and>
   Intrinsic_init (PyStr ''x'') None = Inl TypeError \<and>
   Data_init (PyStr ''x'') None = Inl TypeError \<and>
   Lambda_init (PyStr ''x'') None (PyNode (Reference None ''x'' None)) = Inl TypeError"
  by (simp add: Reference_init_def Intrinsic_init_def Data_init_def Lambda_init_def
      ComputationBuildingBlock_init_id)

end
